theory Spec2Isabelle
  imports Main "HOL-Library.AList"
begin

section \<open>Python values and exceptions\<close>

text \<open>
  The exceptions that the modelled part of \<^verbatim>\<open>api/PclusterApiHandler.py\<close> can raise or
  let through. \<open>HTTPException c\<close> is what Flask's \<^verbatim>\<open>abort(c)\<close> raises.
\<close>

datatype exn =
    ExpiredSignatureError
  | JWSSignatureError
  | JWTError
  | AttributeError
  | IndexError
  | KeyError
  | ValueError
  | TypeError
  | NoCredentialsError
  | ConnectionError
  | JSONDecodeError
  | BadRequest
  | HTTPException nat

text \<open>JSON data as Python sees it after parsing; \<open>JNull\<close> is Python's \<^verbatim>\<open>None\<close>.\<close>

datatype json =
    JNull
  | JBool bool
  | JInt int
  | JStr string
  | JList "json list"
  | JDict "(string \<times> json) list"

text \<open>Python truthiness, as used by \<^verbatim>\<open>if body:\<close>.\<close>

fun truthy :: "json \<Rightarrow> bool" where
  "truthy JNull = False"
| "truthy (JBool b) = b"
| "truthy (JInt i) = (i \<noteq> 0)"
| "truthy (JStr s) = (s \<noteq> [])"
| "truthy (JList xs) = (xs \<noteq> [])"
| "truthy (JDict kvs) = (kvs \<noteq> [])"

text \<open>A value that may be \<^verbatim>\<open>None\<close>, formatted inside an f-string.\<close>

definition fmt :: "string option \<Rightarrow> string" where
  "fmt v = (case v of None \<Rightarrow> ''None'' | Some s \<Rightarrow> s)"

text \<open>\<^verbatim>\<open>not v\<close> for a value that is a string or \<^verbatim>\<open>None\<close>.\<close>

definition falsy :: "string option \<Rightarrow> bool" where
  "falsy v = (case v of None \<Rightarrow> True | Some s \<Rightarrow> s = [])"

subsection \<open>String operations\<close>

text \<open>\<^verbatim>\<open>s.replace(old, new)\<close> for a non-empty \<open>old\<close>: every occurrence, left to right.\<close>

fun replace :: "string \<Rightarrow> string \<Rightarrow> string \<Rightarrow> string" where
  "replace old new [] = []"
| "replace old new (c # cs) =
     (if old \<noteq> [] \<and> take (length old) (c # cs) = old
      then new @ replace old new (drop (length old) (c # cs))
      else c # replace old new cs)"

text \<open>\<^verbatim>\<open>s.split(sep, maxsplit=n)\<close> for a separator of one character.\<close>

fun split_max :: "char \<Rightarrow> nat \<Rightarrow> string \<Rightarrow> string list" where
  "split_max sep n [] = [[]]"
| "split_max sep 0 (c # cs) = [c # cs]"
| "split_max sep (Suc n) (c # cs) =
     (if c = sep then [] # split_max sep n cs
      else (case split_max sep (Suc n) cs of
              [] \<Rightarrow> [[c]]
            | p # ps \<Rightarrow> (c # p) # ps))"

text \<open>\<^verbatim>\<open>s.split(sep)\<close>: no bound on the number of splits.\<close>

definition split :: "char \<Rightarrow> string \<Rightarrow> string list" where
  "split sep s = split_max sep (length s) s"

text \<open>\<^verbatim>\<open>c.lower()\<close> on an ASCII character.\<close>

definition lower :: "char \<Rightarrow> char" where
  "lower c =
     (case map_of (zip ''ABCDEFGHIJKLMNOPQRSTUVWXYZ'' ''abcdefghijklmnopqrstuvwxyz'') c of
        None \<Rightarrow> c
      | Some d \<Rightarrow> d)"

text \<open>\<^verbatim>\<open>sep.join(parts)\<close>.\<close>

fun join :: "string \<Rightarrow> string list \<Rightarrow> string" where
  "join sep [] = []"
| "join sep [p] = p"
| "join sep (p # q # ps) = p @ sep @ join sep (q # ps)"

section \<open>Configuration, requests and responses\<close>

text \<open>
  The process environment and the module globals read from it at import time. Every
  \<^verbatim>\<open>os.getenv\<close> may give \<^verbatim>\<open>None\<close>.
\<close>

record environ =
  AWS_LAMBDA_FUNCTION_NAME :: "string option"
  ENABLE_AUTH :: "string option"
  USER_POOL_ID :: "string option"
  AUTH_PATH :: "string option"
  API_BASE_URL :: "string option"
  CLIENT_ID :: "string option"
  SITE_URL :: "string option"

text \<open>The parts of Flask's \<^verbatim>\<open>request\<close> that \<open>authenticate\<close> and the proxy read. The
  cookies, the query arguments and the headers are werkzeug multi-dictionaries: lists
  of pairs in the order received, in which a key may be repeated; \<^verbatim>\<open>.get(key)\<close> gives the
  first value of the key. \<open>req_json\<close> is what evaluating \<^verbatim>\<open>request.json\<close> gives: a value
  or an exception.\<close>

record request =
  req_cookies :: "(string \<times> string) list"
  req_args :: "(string \<times> string) list"
  req_headers :: "(string \<times> string) list"
  req_json :: "exn + json"

text \<open>A Flask response built by \<^verbatim>\<open>redirect\<close>; a cookie is (name, value, expires).\<close>

record response =
  resp_code :: nat
  resp_location :: string
  resp_cookies :: "(string \<times> string \<times> int option) list"

text \<open>The decoded token: the claims dictionary, of which the gate reads one key.\<close>

record claims =
  cognito_groups :: "string list option"
  username :: "string option"

text \<open>The request handed to \<^verbatim>\<open>requests.get/post/...\<close>. \<open>out_data\<close> stands for the text
  \<^verbatim>\<open>json.dumps(body)\<close>, represented by the value it serialises.\<close>

record outbound =
  out_method :: string
  out_url :: string
  out_data :: "json option"
  out_headers :: "(string \<times> string) list"
  out_timeout :: "nat option"

text \<open>The backend's answer: \<open>json_body\<close> is what \<^verbatim>\<open>response.json()\<close> returns or raises.\<close>

record backend_response =
  status_code :: nat
  json_body :: "exn + json"

text \<open>
  The libraries the module calls, as parameters:
  \<^item> \<open>jwt_lib token jwks_url\<close> is \<^verbatim>\<open>jwt.decode(token, requests.get(jwks_url).json())\<close>
    of python-jose. It raises \<open>ExpiredSignatureError\<close> for a token past its expiry. For a
    signature that does not verify it raises \<open>JWTError\<close>: the \<open>JWSSignatureError\<close> of
    the signature check is caught inside the library and raised again as \<open>JWTError\<close>;
  \<^item> \<open>add_auth method url data region\<close> is botocore's SigV4 signing for the service
    \<^verbatim>\<open>execute-api\<close> followed by \<^verbatim>\<open>prepare()\<close>, giving the headers of the prepared request;
  \<^item> \<open>send\<close> is the transport of the \<^verbatim>\<open>requests\<close> library.
\<close>

record ext =
  jwt_lib :: "string \<Rightarrow> string \<Rightarrow> exn + claims"
  add_auth :: "string \<Rightarrow> string \<Rightarrow> json option \<Rightarrow> string \<Rightarrow> exn + (string \<times> string) list"
  send :: "outbound \<Rightarrow> exn + backend_response"

section \<open>Helpers\<close>

definition running_local :: "environ \<Rightarrow> bool" where
  "running_local env = falsy (AWS_LAMBDA_FUNCTION_NAME env)"

definition disable_auth :: "environ \<Rightarrow> bool" where
  "disable_auth env = (ENABLE_AUTH env = Some ''false'')"

definition jwt_decode :: "ext \<Rightarrow> string \<Rightarrow> string option \<Rightarrow> exn + claims" where
  "jwt_decode x token user_pool_id =
     (case user_pool_id of
        None \<Rightarrow> Inl AttributeError
      | Some pool \<Rightarrow>
          (case split (CHR ''_'') pool of
             [] \<Rightarrow> Inl IndexError
           | region # _ \<Rightarrow>
               jwt_lib x token
                 (''https://cognito-idp.'' @ region @ ''.amazonaws.com/'' @ pool
                    @ ''/.well-known/jwks.json'')))"

text \<open>\<^verbatim>\<open>decoded.get("cognito:groups", [])\<close>.\<close>

definition get_groups :: "claims \<Rightarrow> string list" where
  "get_groups decoded = (case cognito_groups decoded of None \<Rightarrow> [] | Some gs \<Rightarrow> gs)"

section \<open>The authorization gate\<close>

definition redirect :: "string \<Rightarrow> nat \<Rightarrow> response" where
  "redirect loc code = \<lparr>resp_code = code, resp_location = loc, resp_cookies = []\<rparr>"

definition auth_redirect :: "environ \<Rightarrow> response" where
  "auth_redirect env =
     (let redirect_uri = fmt (SITE_URL env) @ ''/login'';
          auth_redirect_path =
            fmt (AUTH_PATH env) @ ''/login?response_type=code&client_id=''
              @ fmt (CLIENT_ID env) @ ''&redirect_uri='' @ redirect_uri
      in redirect auth_redirect_path 302)"

definition logout :: response where
  "logout =
     (let resp = redirect ''/login'' 302
      in resp\<lparr>resp_cookies := resp_cookies resp @ [(''accessToken'', '''', Some 0)]\<rparr>)"

text \<open>
  \<^verbatim>\<open>authenticate(group)\<close>: \<open>Inr None\<close> is the function falling through (the request may
  proceed), \<open>Inr (Some r)\<close> a response to send instead, \<open>Inl e\<close> an exception it does
  not catch.
\<close>

definition authenticate :: "environ \<Rightarrow> ext \<Rightarrow> request \<Rightarrow> string \<Rightarrow> exn + response option" where
  "authenticate env x req grp =
     (if running_local env then Inr None
      else
        (let access_token = map_of (req_cookies req) ''accessToken'' in
         if falsy access_token then Inr (Some (auth_redirect env))
         else
           (case jwt_decode x (fmt access_token) (USER_POOL_ID env) of
              Inl ExpiredSignatureError \<Rightarrow> Inr (Some (auth_redirect env))
            | Inl JWSSignatureError \<Rightarrow> Inr (Some logout)
            | Inl e \<Rightarrow> Inl e
            | Inr decoded \<Rightarrow>
                (if \<not> disable_auth env \<and> grp \<noteq> ''guest''
                    \<and> grp \<notin> set (get_groups decoded)
                 then Inr (Some (auth_redirect env))
                 else Inr None))))"

text \<open>
  What a view function gives back to Flask: a response object, or the pair
  \<^verbatim>\<open>(data, status)\<close> that flask-restful serialises.
\<close>

datatype reply = Page response | Body json nat

text \<open>
  A computation of the proxy: its result or the exception that escapes it, and the
  calls it dispatched to the backend, in order.
\<close>

type_synonym 'a io = "(exn + 'a) \<times> outbound list"

text \<open>
  The decorator \<^verbatim>\<open>authenticated(group, redirect)\<close> around a view \<open>func\<close>. A response
  object is truthy, so any response of \<open>authenticate\<close> stops the view.
\<close>

definition authenticated ::
  "environ \<Rightarrow> ext \<Rightarrow> request \<Rightarrow> string \<Rightarrow> bool \<Rightarrow> reply io \<Rightarrow> reply io" where
  "authenticated env x req grp redir func =
     (case authenticate env x req grp of
        Inl e \<Rightarrow> (Inl e, [])
      | Inr (Some auth_response) \<Rightarrow>
          (if redir then (Inr (Page auth_response), []) else (Inl (HTTPException 401), []))
      | Inr None \<Rightarrow> func)"

section \<open>The request signer\<close>

text \<open>\<^verbatim>\<open>"&".join([f"{k}={v}" for k, v in (params or {}).items()])\<close>.\<close>

definition request_parameters :: "(string \<times> string) list \<Rightarrow> string" where
  "request_parameters params = join ''&'' (map (\<lambda>(k, v). k @ ''='' @ v) params)"

text \<open>
  \<^verbatim>\<open>boto_request.headers[k] = val\<close>. The headers of a prepared botocore request match
  names without regard to case: assigning to a name that is present, in any case, keeps
  the entry and its spelling and replaces the value; a new name is added at the end.
\<close>

definition headers_set ::
  "string \<Rightarrow> string \<Rightarrow> (string \<times> string) list \<Rightarrow> (string \<times> string) list" where
  "headers_set k val hs =
     (if map lower k \<in> set (map (\<lambda>(k', v'). map lower k') hs)
      then map (\<lambda>(k', v'). if map lower k' = map lower k then (k', val) else (k', v')) hs
      else hs @ [(k, val)])"

text \<open>The table of \<^verbatim>\<open>requests\<close> functions, looked up with \<^verbatim>\<open>.get(method)\<close>.\<close>

definition req_call :: "ext \<Rightarrow> string \<Rightarrow> (outbound \<Rightarrow> exn + backend_response) option" where
  "req_call x method =
     (if method \<in> set [''POST'', ''GET'', ''PUT'', ''PATCH'', ''DELETE''] then Some (send x)
      else None)"

text \<open>
  \<^verbatim>\<open>sigv4_request(method, host, path, params, headers, body)\<close>. The host and the path
  come from \<^verbatim>\<open>os.getenv\<close> and \<^verbatim>\<open>request.args.get\<close> and may be \<^verbatim>\<open>None\<close>. Unpacking the
  split endpoint into four names raises \<open>ValueError\<close> unless it has four parts. The
  prepared request keeps the URL it was built with.
\<close>

definition sigv4_request ::
  "ext \<Rightarrow> string \<Rightarrow> string option \<Rightarrow> string option \<Rightarrow> (string \<times> string) list
     \<Rightarrow> (string \<times> string) list \<Rightarrow> json \<Rightarrow> backend_response io" where
  "sigv4_request x method host path params headers body =
     (case host of
        None \<Rightarrow> (Inl AttributeError, [])
      | Some h \<Rightarrow>
          (let endpoint = replace ''http://'' [] (replace ''https://'' [] h) in
           case split_max (CHR ''.'') 3 endpoint of
             [api_id, service, region, domain] \<Rightarrow>
               (let url = h @ fmt path @ ''?'' @ request_parameters params;
                    body_data = (if truthy body then Some body else None)
                in case add_auth x method url body_data region of
                     Inl e \<Rightarrow> (Inl e, [])
                   | Inr signed \<Rightarrow>
                       (let hs = (if truthy body
                                  then headers_set ''content-type'' ''application/json'' signed
                                  else signed);
                            hs' = foldl (\<lambda>acc (k, val). headers_set k val acc) hs headers
                        in case req_call x method of
                             None \<Rightarrow> (Inl TypeError, [])
                           | Some call \<Rightarrow>
                               (let out = \<lparr>out_method = method, out_url = url,
                                           out_data = body_data, out_headers = hs',
                                           out_timeout = Some 30\<rparr>
                                in (call out, [out]))))
           | _ \<Rightarrow> (Inl ValueError, [])))"

section \<open>The proxy\<close>

text \<open>
  \<^verbatim>\<open>_get_params\<close>. \<^verbatim>\<open>{**_request.args}\<close> builds a plain dictionary from the
  multi-dictionary: every key once, in the order of its first occurrence, with its first
  value (\<open>AList.clearjunk\<close>). Then \<^verbatim>\<open>path\<close> is popped; \<^verbatim>\<open>dict.pop\<close> without a default
  raises \<open>KeyError\<close> when the key is missing.
\<close>

definition get_params :: "request \<Rightarrow> exn + (string \<times> string) list" where
  "get_params req =
     (let params = AList.clearjunk (req_args req) in
      case map_of params ''path'' of
        None \<Rightarrow> Inl KeyError
      | Some _ \<Rightarrow> Inr (AList.delete ''path'' params))"

text \<open>The headers of the request: names are matched without regard to case.\<close>

definition headers_get :: "(string \<times> string) list \<Rightarrow> string \<Rightarrow> string option" where
  "headers_get hs name = map_of (map (\<lambda>(k, v). (map lower k, v)) hs) (map lower name)"

definition headers_contains :: "(string \<times> string) list \<Rightarrow> string \<Rightarrow> bool" where
  "headers_contains hs name = (headers_get hs name \<noteq> None)"

text \<open>\<^verbatim>\<open>return resp.json(), resp.status_code\<close>, the last line of every proxy method.\<close>

definition relay :: "backend_response io \<Rightarrow> reply io" where
  "relay r =
     (case r of
        (Inl e, sent) \<Rightarrow> (Inl e, sent)
      | (Inr resp, sent) \<Rightarrow>
          (case json_body resp of
             Inl e \<Rightarrow> (Inl e, sent)
           | Inr data \<Rightarrow> (Inr (Body data (status_code resp)), sent)))"

text \<open>The second gate of the writing methods:
  \<^verbatim>\<open>auth_response = authenticate("admin"); if auth_response: abort(401)\<close>.\<close>

definition admin_only :: "environ \<Rightarrow> ext \<Rightarrow> request \<Rightarrow> reply io \<Rightarrow> reply io" where
  "admin_only env x req rest =
     (case authenticate env x req ''admin'' of
        Inl e \<Rightarrow> (Inl e, [])
      | Inr (Some auth_response) \<Rightarrow> (Inl (HTTPException 401), [])
      | Inr None \<Rightarrow> rest)"

text \<open>
  The arguments of the call to \<^verbatim>\<open>sigv4_request\<close> are evaluated left to right:
  \<^verbatim>\<open>request.args.get("path")\<close>, then \<^verbatim>\<open>_get_params(request)\<close>, then the keyword
  argument \<^verbatim>\<open>body\<close>.
\<close>

definition PclusterApiHandler_get :: "environ \<Rightarrow> ext \<Rightarrow> request \<Rightarrow> reply io" where
  "PclusterApiHandler_get env x req =
     authenticated env x req ''user'' False
       (let path = map_of (req_args req) ''path'' in
        case get_params req of
          Inl e \<Rightarrow> (Inl e, [])
        | Inr params \<Rightarrow> relay (sigv4_request x ''GET'' (API_BASE_URL env) path params [] JNull))"

definition PclusterApiHandler_post :: "environ \<Rightarrow> ext \<Rightarrow> request \<Rightarrow> reply io" where
  "PclusterApiHandler_post env x req =
     authenticated env x req ''user'' False
       (admin_only env x req
          (let path = map_of (req_args req) ''path'' in
           case get_params req of
             Inl e \<Rightarrow> (Inl e, [])
           | Inr params \<Rightarrow>
               (case req_json req of
                  Inl e \<Rightarrow> (Inl e, [])
                | Inr body \<Rightarrow>
                    relay (sigv4_request x ''POST'' (API_BASE_URL env) path params [] body))))"

definition PclusterApiHandler_put :: "environ \<Rightarrow> ext \<Rightarrow> request \<Rightarrow> reply io" where
  "PclusterApiHandler_put env x req =
     authenticated env x req ''user'' False
       (admin_only env x req
          (let path = map_of (req_args req) ''path'' in
           case get_params req of
             Inl e \<Rightarrow> (Inl e, [])
           | Inr params \<Rightarrow>
               (case req_json req of
                  Inl e \<Rightarrow> (Inl e, [])
                | Inr body \<Rightarrow>
                    relay (sigv4_request x ''PUT'' (API_BASE_URL env) path params [] body))))"

text \<open>The \<^verbatim>\<open>try\<close> block of \<^verbatim>\<open>delete\<close>: the body stays \<^verbatim>\<open>None\<close> unless both header tests
  hold; an exception of \<^verbatim>\<open>request.json\<close> is raised again.\<close>

definition delete_body :: "request \<Rightarrow> exn + json" where
  "delete_body req =
     (if headers_contains (req_headers req) ''Content-Type''
         \<and> headers_get (req_headers req) ''ContentType'' = Some ''application/json''
      then req_json req
      else Inr JNull)"

definition PclusterApiHandler_delete :: "environ \<Rightarrow> ext \<Rightarrow> request \<Rightarrow> reply io" where
  "PclusterApiHandler_delete env x req =
     authenticated env x req ''user'' False
       (admin_only env x req
          (case delete_body req of
             Inl e \<Rightarrow> (Inl e, [])
           | Inr body \<Rightarrow>
               (let path = map_of (req_args req) ''path'' in
                case get_params req of
                  Inl e \<Rightarrow> (Inl e, [])
                | Inr params \<Rightarrow>
                    relay (sigv4_request x ''DELETE'' (API_BASE_URL env) path params [] body))))"

definition PclusterApiHandler_patch :: "environ \<Rightarrow> ext \<Rightarrow> request \<Rightarrow> reply io" where
  "PclusterApiHandler_patch env x req =
     authenticated env x req ''user'' False
       (admin_only env x req
          (let path = map_of (req_args req) ''path'' in
           case get_params req of
             Inl e \<Rightarrow> (Inl e, [])
           | Inr params \<Rightarrow>
               (case req_json req of
                  Inl e \<Rightarrow> (Inl e, [])
                | Inr body \<Rightarrow>
                    relay (sigv4_request x ''PATCH'' (API_BASE_URL env) path params [] body))))"

text \<open>flask-restful calls the method of the resource named after the HTTP verb.\<close>

datatype verb = GET | POST | PUT | DELETE | PATCH

fun forward :: "verb \<Rightarrow> environ \<Rightarrow> ext \<Rightarrow> request \<Rightarrow> reply io" where
  "forward GET = PclusterApiHandler_get"
| "forward POST = PclusterApiHandler_post"
| "forward PUT = PclusterApiHandler_put"
| "forward DELETE = PclusterApiHandler_delete"
| "forward PATCH = PclusterApiHandler_patch"

section \<open>Sample deployments, libraries and requests\<close>

text \<open>A deployed instance (the Lambda function name is set), with authorization on.\<close>

definition deployed :: environ where
  "deployed =
     \<lparr>AWS_LAMBDA_FUNCTION_NAME = Some ''pcluster-manager'',
      ENABLE_AUTH = None,
      USER_POOL_ID = Some ''us-east-1_AbCdEf123'',
      AUTH_PATH = Some ''https://auth.example.com'',
      API_BASE_URL = Some ''https://abc123.execute-api.us-east-1.amazonaws.com/prod'',
      CLIENT_ID = Some ''client1'',
      SITE_URL = Some ''https://site.example.com''\<rparr>"

text \<open>The same instance with \<^verbatim>\<open>ENABLE_AUTH=false\<close>, and one run outside Lambda.\<close>

definition deployed_noauth :: environ where
  "deployed_noauth = deployed\<lparr>ENABLE_AUTH := Some ''false''\<rparr>"

definition local_dev :: environ where
  "local_dev = deployed\<lparr>AWS_LAMBDA_FUNCTION_NAME := None\<rparr>"

text \<open>Verifiers: one that finds every token expired, one that finds every signature
  wrong (python-jose then raises \<open>JWTError\<close>), and two that accept the token and read
  the groups of a user and of an admin.\<close>

definition verify_expired :: "string \<Rightarrow> string \<Rightarrow> exn + claims" where
  "verify_expired token jwks_url = Inl ExpiredSignatureError"

definition verify_tampered :: "string \<Rightarrow> string \<Rightarrow> exn + claims" where
  "verify_tampered token jwks_url = Inl JWTError"

definition verify_user :: "string \<Rightarrow> string \<Rightarrow> exn + claims" where
  "verify_user token jwks_url =
     Inr \<lparr>cognito_groups = Some [''user''], username = Some ''alice''\<rparr>"

definition verify_admin :: "string \<Rightarrow> string \<Rightarrow> exn + claims" where
  "verify_admin token jwks_url =
     Inr \<lparr>cognito_groups = Some [''user'', ''admin''], username = Some ''root''\<rparr>"

text \<open>A signer that always succeeds, and three backends.\<close>

definition sign_ok ::
  "string \<Rightarrow> string \<Rightarrow> json option \<Rightarrow> string \<Rightarrow> exn + (string \<times> string) list" where
  "sign_ok method url data region =
     Inr [(''Authorization'', ''AWS4-HMAC-SHA256 '' @ region), (''X-Amz-Date'', ''20220101T000000Z'')]"

definition backend_found :: "outbound \<Rightarrow> exn + backend_response" where
  "backend_found out =
     Inr \<lparr>status_code = 200, json_body = Inr (JDict [(''clusterName'', JStr ''foo'')])\<rparr>"

definition backend_missing :: "outbound \<Rightarrow> exn + backend_response" where
  "backend_missing out =
     Inr \<lparr>status_code = 404, json_body = Inr (JDict [(''message'', JStr ''not found'')])\<rparr>"

definition backend_html :: "outbound \<Rightarrow> exn + backend_response" where
  "backend_html out = Inr \<lparr>status_code = 502, json_body = Inl JSONDecodeError\<rparr>"

definition libs ::
  "(string \<Rightarrow> string \<Rightarrow> exn + claims) \<Rightarrow> (outbound \<Rightarrow> exn + backend_response) \<Rightarrow> ext" where
  "libs verifier backend = \<lparr>jwt_lib = verifier, add_auth = sign_ok, send = backend\<rparr>"

text \<open>Requests: without a cookie; a read of one cluster; the same without \<^verbatim>\<open>path\<close>;
  a delete that carries a JSON body and the header \<^verbatim>\<open>Content-Type: application/json\<close>.\<close>

definition req_anonymous :: request where
  "req_anonymous =
     \<lparr>req_cookies = [],
      req_args = [(''path'', ''/v3/clusters/foo''), (''region'', ''us-east-1'')],
      req_headers = [],
      req_json = Inr JNull\<rparr>"

definition req_read :: request where
  "req_read = req_anonymous\<lparr>req_cookies := [(''accessToken'', ''eyJraWQi.eyJzdWIi.c2ln'')]\<rparr>"

definition req_nopath :: request where
  "req_nopath = req_read\<lparr>req_args := [(''region'', ''us-east-1'')]\<rparr>"

definition req_delete :: request where
  "req_delete =
     req_read\<lparr>req_headers := [(''Content-Type'', ''application/json'')],
              req_json := Inr (JDict [(''force'', JBool True)])\<rparr>"

text \<open>A read whose query string repeats keys:
  \<^verbatim>\<open>?path=/v3/clusters/foo&path=/v3/images&region=us-east-1&region=eu-west-1\<close>.\<close>

definition req_repeated :: request where
  "req_repeated =
     req_read\<lparr>req_args := [(''path'', ''/v3/clusters/foo''), (''path'', ''/v3/images''),
                           (''region'', ''us-east-1''), (''region'', ''eu-west-1'')]\<rparr>"

text \<open>The call that \<open>req_read\<close> turns into at the backend of \<open>deployed\<close>.\<close>

definition out_read :: outbound where
  "out_read =
     \<lparr>out_method = ''GET'',
      out_url = ''https://abc123.execute-api.us-east-1.amazonaws.com/prod/v3/clusters/foo?region=us-east-1'',
      out_data = None,
      out_headers = [(''Authorization'', ''AWS4-HMAC-SHA256 us-east-1''),
                     (''X-Amz-Date'', ''20220101T000000Z'')],
      out_timeout = Some 30\<rparr>"

section \<open>Auxiliary facts\<close>

lemma length_split_max: "length (split_max sep n s) = Suc (min n (count_list s sep))"
proof (induction sep n s rule: split_max.induct)
  case (1 sep n)
  then show ?case by simp
next
  case (2 sep c cs)
  then show ?case by simp
next
  case (3 sep n c cs)
  then show ?case by (cases "split_max sep (Suc n) cs") auto
qed

lemma count_list_le_length: "count_list s c \<le> length s"
  by (induction s) auto

lemma length_split: "length (split sep s) = Suc (count_list s sep)"
  by (simp add: split_def length_split_max min_absorb2 count_list_le_length)

lemma split_max_short:
  assumes "length (split sep s) < 4"
  shows "length (split_max sep 3 s) < 4"
  using assms by (simp add: length_split length_split_max)

lemma unpack_four_fails:
  assumes "length xs \<noteq> 4"
  shows "(case xs of [a, b, c, d] \<Rightarrow> f a b c d | _ \<Rightarrow> g) = g"
  using assms by (auto split: list.splits)

text \<open>Outside local mode, with a non-empty cookie, the gate is decided by the verifier.\<close>

lemma authenticate_with_token:
  assumes "\<not> running_local env"
    and "map_of (req_cookies req) ''accessToken'' = Some token"
    and "token \<noteq> []"
  shows "authenticate env x req g =
     (case jwt_decode x token (USER_POOL_ID env) of
        Inl ExpiredSignatureError \<Rightarrow> Inr (Some (auth_redirect env))
      | Inl JWSSignatureError \<Rightarrow> Inr (Some logout)
      | Inl e \<Rightarrow> Inl e
      | Inr decoded \<Rightarrow>
          (if \<not> disable_auth env \<and> g \<noteq> ''guest'' \<and> g \<notin> set (get_groups decoded)
           then Inr (Some (auth_redirect env))
           else Inr None))"
  using assms by (simp add: authenticate_def falsy_def fmt_def)

text \<open>Outside local mode, a request without the cookie, or with an empty one, is sent
  to the login page.\<close>

lemma authenticate_no_cookie:
  assumes "\<not> running_local env"
    and "falsy (map_of (req_cookies req) ''accessToken'')"
  shows "authenticate env x req g = Inr (Some (auth_redirect env))"
  using assms by (simp add: authenticate_def)

text \<open>An exception of the verifier never lets the request through.\<close>

lemma authenticate_decode_error:
  assumes "\<not> running_local env"
    and "map_of (req_cookies req) ''accessToken'' = Some token"
    and "token \<noteq> []"
    and "jwt_decode x token (USER_POOL_ID env) = Inl e"
  shows "authenticate env x req g =
     (if e = ExpiredSignatureError then Inr (Some (auth_redirect env))
      else if e = JWSSignatureError then Inr (Some logout)
      else Inl e)"
  using assms by (cases e) (simp_all add: authenticate_with_token)

text \<open>\<open>ENABLE_AUTH\<close> is read by \<open>disable_auth\<close> only.\<close>

lemma flag_elsewhere:
  "running_local (env\<lparr>ENABLE_AUTH := flag\<rparr>) = running_local env"
  "auth_redirect (env\<lparr>ENABLE_AUTH := flag\<rparr>) = auth_redirect env"
  "USER_POOL_ID (env\<lparr>ENABLE_AUTH := flag\<rparr>) = USER_POOL_ID env"
  by (simp_all add: running_local_def auth_redirect_def)

subsection \<open>The signer and the proxy methods\<close>

lemma unpack_four:
  "(case xs of [a, b, c, d] \<Rightarrow> f a b c d | _ \<Rightarrow> g) =
     (if length xs = 4 then f (xs ! 0) (xs ! 1) (xs ! 2) (xs ! 3) else g)"
  by (auto split: list.splits)

lemma req_call_cases: "req_call x m = None \<or> req_call x m = Some (send x)"
  by (simp add: req_call_def)

lemma sigv4_request_sent:
  "(\<exists>e. sigv4_request x m host path params headers body = (Inl e, [])) \<or>
   (\<exists>h out. host = Some h
      \<and> sigv4_request x m host path params headers body = (send x out, [out])
      \<and> out_timeout out = Some 30 \<and> out_method out = m
      \<and> out_url out = h @ fmt path @ ''?'' @ request_parameters params
      \<and> out_data out = (if truthy body then Some body else None))"
proof (cases host)
  case None
  then show ?thesis by (simp add: sigv4_request_def)
next
  case (Some h)
  let ?parts = "split_max (CHR ''.'') 3 (replace ''http://'' [] (replace ''https://'' [] h))"
  let ?url = "h @ fmt path @ ''?'' @ request_parameters params"
  let ?data = "if truthy body then Some body else None"
  show ?thesis
  proof (cases "length ?parts = 4")
    case False
    then show ?thesis using Some
      unfolding sigv4_request_def unpack_four by (simp add: Let_def)
  next
    case four: True
    show ?thesis
    proof (cases "add_auth x m ?url ?data (?parts ! 2)")
      case (Inl e)
      then have "sigv4_request x m host path params headers body = (Inl e, [])"
        using Some four unfolding sigv4_request_def unpack_four by (simp add: Let_def)
      then show ?thesis by blast
    next
      case (Inr signed)
      from req_call_cases [of x m] show ?thesis
      proof
        assume "req_call x m = None"
        then have "sigv4_request x m host path params headers body = (Inl TypeError, [])"
          using Some four Inr unfolding sigv4_request_def unpack_four by (simp add: Let_def)
        then show ?thesis by blast
      next
        assume call: "req_call x m = Some (send x)"
        let ?out = "\<lparr>out_method = m, out_url = ?url, out_data = ?data,
           out_headers = foldl (\<lambda>acc (k, val). headers_set k val acc)
              (if truthy body then headers_set ''content-type'' ''application/json'' signed
               else signed) headers,
           out_timeout = Some 30\<rparr>"
        have "sigv4_request x m host path params headers body = (send x ?out, [?out])"
          using Some four Inr call unfolding sigv4_request_def unpack_four
          by (simp add: Let_def)
        then have "host = Some h
            \<and> sigv4_request x m host path params headers body = (send x ?out, [?out])
            \<and> out_timeout ?out = Some 30 \<and> out_method ?out = m
            \<and> out_url ?out = ?url \<and> out_data ?out = ?data"
          using Some by simp
        then show ?thesis by blast
      qed
    qed
  qed
qed


lemma relay_sent: "snd (relay r) = snd r"
  by (auto simp: relay_def split: prod.splits sum.splits)

lemma relay_error: "relay (Inl e, sent) = (Inl e, sent)"
  by (simp add: relay_def)

lemma relay_answer:
  "relay (Inr resp, sent) =
     (case json_body resp of
        Inl e \<Rightarrow> (Inl e, sent)
      | Inr data \<Rightarrow> (Inr (Body data (status_code resp)), sent))"
  by (simp add: relay_def)

lemma forward_sent:
  "snd (forward v env x req) = [] \<or>
   (\<exists>m params body. get_params req = Inr params \<and>
      forward v env x req =
        relay (sigv4_request x m (API_BASE_URL env) (map_of (req_args req) ''path'') params [] body))"
  by (cases v)
    (auto simp: PclusterApiHandler_get_def PclusterApiHandler_post_def PclusterApiHandler_put_def
      PclusterApiHandler_delete_def PclusterApiHandler_patch_def authenticated_def admin_only_def
      split: sum.splits option.splits)

text \<open>Every proxy method dispatches at most one call, built by the signer from the
  query arguments without \<open>path\<close>, and relays what that call gives.\<close>

lemma forward_dispatch:
  assumes "snd (forward v env x req) \<noteq> []"
  shows "\<exists>h params out. API_BASE_URL env = Some h \<and> get_params req = Inr params
      \<and> forward v env x req = relay (send x out, [out])
      \<and> out_timeout out = Some 30
      \<and> out_url out = h @ fmt (map_of (req_args req) ''path'') @ ''?'' @ request_parameters params"
proof -
  from forward_sent [of v env x req] assms obtain m params body where
    p: "get_params req = Inr params" and
    f: "forward v env x req =
        relay (sigv4_request x m (API_BASE_URL env) (map_of (req_args req) ''path'') params [] body)"
    by blast
  from sigv4_request_sent [of x m "API_BASE_URL env" "map_of (req_args req) ''path''" params "[]" body]
  show ?thesis
  proof
    assume "\<exists>e. sigv4_request x m (API_BASE_URL env) (map_of (req_args req) ''path'') params [] body
        = (Inl e, [])"
    then have "snd (forward v env x req) = []" using f by (auto simp: relay_error)
    with assms show ?thesis by simp
  next
    assume "\<exists>h out. API_BASE_URL env = Some h
      \<and> sigv4_request x m (API_BASE_URL env) (map_of (req_args req) ''path'') params [] body
          = (send x out, [out])
      \<and> out_timeout out = Some 30 \<and> out_method out = m
      \<and> out_url out = h @ fmt (map_of (req_args req) ''path'') @ ''?'' @ request_parameters params
      \<and> out_data out = (if truthy body then Some body else None)"
    then show ?thesis using p f by auto
  qed
qed

section \<open>Authorization\<close>

text \<open>
  Claim C1. In a deployed instance with authorization on, for a request whose cookie
  holds a token that the verifier accepts with claims \<open>C\<close>, \<open>authenticate g\<close> lets the
  request through (returns nothing) exactly when \<open>g\<close> is \<open>guest\<close> or one of the groups of
  \<open>C\<close>, for every \<open>g\<close> and so for guest, user and admin. Otherwise it returns the redirect
  to the login page, which the decorator passes on when \<open>redirect\<close> is set and turns
  into \<open>abort(401)\<close> when it is not, as at the proxy methods.
\<close>

theorem authenticate_allowed_iff_member:
  assumes "\<not> running_local env"
    and "\<not> disable_auth env"
    and "map_of (req_cookies req) ''accessToken'' = Some token"
    and "token \<noteq> []"
    and "jwt_decode x token (USER_POOL_ID env) = Inr C"
  shows "(authenticate env x req g = Inr None \<longleftrightarrow> g = ''guest'' \<or> g \<in> set (get_groups C))
    \<and> authenticate env x req g =
        (if g = ''guest'' \<or> g \<in> set (get_groups C) then Inr None
         else Inr (Some (auth_redirect env)))
    \<and> authenticated env x req g redir func =
        (if g = ''guest'' \<or> g \<in> set (get_groups C) then func
         else if redir then (Inr (Page (auth_redirect env)), [])
         else (Inl (HTTPException 401), []))"
proof -
  have a: "authenticate env x req g =
        (if g = ''guest'' \<or> g \<in> set (get_groups C) then Inr None
         else Inr (Some (auth_redirect env)))"
    using assms by (simp add: authenticate_with_token)
  then show ?thesis by (simp add: authenticated_def)
qed

text \<open>A user's token passes for \<open>user\<close> and \<open>guest\<close> and is turned away for \<open>admin\<close>.\<close>

theorem authenticate_allowed_iff_member_witness:
  "\<not> running_local deployed \<and> \<not> disable_auth deployed
   \<and> map_of (req_cookies req_read) ''accessToken'' = Some ''eyJraWQi.eyJzdWIi.c2ln''
   \<and> jwt_decode (libs verify_user backend_found) ''eyJraWQi.eyJzdWIi.c2ln'' (USER_POOL_ID deployed)
       = Inr \<lparr>cognito_groups = Some [''user''], username = Some ''alice''\<rparr>
   \<and> authenticate deployed (libs verify_user backend_found) req_read ''user'' = Inr None
   \<and> authenticate deployed (libs verify_user backend_found) req_read ''guest'' = Inr None
   \<and> authenticate deployed (libs verify_user backend_found) req_read ''admin''
       = Inr (Some (auth_redirect deployed))
   \<and> authenticated deployed (libs verify_user backend_found) req_read ''admin'' False
        (Inr (Body JNull 200), []) = (Inl (HTTPException 401), [])"
proof -
  let ?x = "libs verify_user backend_found"
  let ?C = "\<lparr>cognito_groups = Some [''user''], username = Some ''alice''\<rparr>"
  have h1: "\<not> running_local deployed" by code_simp
  have h2: "\<not> disable_auth deployed" by code_simp
  have h3: "map_of (req_cookies req_read) ''accessToken'' = Some ''eyJraWQi.eyJzdWIi.c2ln''"
    by code_simp
  have h4: "''eyJraWQi.eyJzdWIi.c2ln'' \<noteq> []" by simp
  have h5: "jwt_decode ?x ''eyJraWQi.eyJzdWIi.c2ln'' (USER_POOL_ID deployed) = Inr ?C"
    by code_simp
  note t = authenticate_allowed_iff_member [OF h1 h2 h3 h4 h5]
  have g: "get_groups ?C = [''user'']" by (simp add: get_groups_def)
  from t [of "''user''"] t [of "''guest''"] t [of "''admin''" False "(Inr (Body JNull 200), [])"]
  show ?thesis using h1 h2 h3 h5 by (simp add: g)
qed

text \<open>
  Claim C2, as stated, fails. With \<^verbatim>\<open>ENABLE_AUTH=false\<close> in a deployed instance the gate
  still does not let through a request without a cookie, one whose token has expired and
  one whose signature is wrong: the flag is read only after the token has been decoded.
\<close>

theorem disable_auth_not_always_allowed:
  "disable_auth deployed_noauth
   \<and> authenticate deployed_noauth (libs verify_user backend_found) req_anonymous ''user'' \<noteq> Inr None
   \<and> authenticate deployed_noauth (libs verify_expired backend_found) req_read ''user'' \<noteq> Inr None
   \<and> authenticate deployed_noauth (libs verify_tampered backend_found) req_read ''user'' \<noteq> Inr None"
  by code_simp

text \<open>
  Claim C2, amended. With \<^verbatim>\<open>ENABLE_AUTH=false\<close>, every check on a request whose cookie
  holds a token that the verifier accepts lets the request through, whatever the required
  group and whatever groups the token carries. The flag does not change the outcome for
  a credential that is absent or does not verify: in a deployed instance a request
  without the cookie and one whose token has expired are sent to the login page, no
  failure of the verifier (a wrong signature among them) lets the request through, and
  in all these cases \<open>authenticate\<close> returns what it returns for any other value of the
  flag.
\<close>

theorem disable_auth_allows_verified:
  assumes "disable_auth env"
  shows "(map_of (req_cookies req) ''accessToken'' = Some token \<and> token \<noteq> []
          \<and> jwt_decode x token (USER_POOL_ID env) = Inr C
        \<longrightarrow> authenticate env x req g = Inr None)
    \<and> (\<not> running_local env \<and> falsy (map_of (req_cookies req) ''accessToken'')
        \<longrightarrow> authenticate env x req g = Inr (Some (auth_redirect env)))
    \<and> (\<not> running_local env \<and> map_of (req_cookies req) ''accessToken'' = Some token
          \<and> token \<noteq> [] \<and> jwt_decode x token (USER_POOL_ID env) = Inl ExpiredSignatureError
        \<longrightarrow> authenticate env x req g = Inr (Some (auth_redirect env)))
    \<and> (\<not> running_local env \<and> map_of (req_cookies req) ''accessToken'' = Some token
          \<and> token \<noteq> [] \<and> isl (jwt_decode x token (USER_POOL_ID env))
        \<longrightarrow> authenticate env x req g \<noteq> Inr None)
    \<and> (falsy (map_of (req_cookies req) ''accessToken'')
          \<or> (map_of (req_cookies req) ''accessToken'' = Some token
               \<and> isl (jwt_decode x token (USER_POOL_ID env)))
        \<longrightarrow> authenticate (env\<lparr>ENABLE_AUTH := flag\<rparr>) x req g = authenticate env x req g)"
proof -
  let ?tok = "map_of (req_cookies req) ''accessToken''"
  let ?env' = "env\<lparr>ENABLE_AUTH := flag\<rparr>"
  have verified: "authenticate env x req g = Inr None"
    if "?tok = Some token" "token \<noteq> []" "jwt_decode x token (USER_POOL_ID env) = Inr C"
  proof (cases "running_local env")
    case True
    then show ?thesis by (simp add: authenticate_def)
  next
    case False
    then show ?thesis using that assms by (simp add: authenticate_with_token)
  qed
  have absent: "authenticate env x req g = Inr (Some (auth_redirect env))"
    if "\<not> running_local env" "falsy ?tok"
    using that by (rule authenticate_no_cookie)
  have expired: "authenticate env x req g = Inr (Some (auth_redirect env))"
    if "\<not> running_local env" "?tok = Some token" "token \<noteq> []"
      "jwt_decode x token (USER_POOL_ID env) = Inl ExpiredSignatureError"
    using that by (simp add: authenticate_decode_error)
  have failed: "authenticate env x req g \<noteq> Inr None"
    if "\<not> running_local env" "?tok = Some token" "token \<noteq> []"
      "isl (jwt_decode x token (USER_POOL_ID env))"
  proof -
    from that(4) obtain e where "jwt_decode x token (USER_POOL_ID env) = Inl e"
      by (cases "jwt_decode x token (USER_POOL_ID env)") auto
    with that(1-3) show ?thesis by (simp add: authenticate_decode_error)
  qed
  have same: "authenticate ?env' x req g = authenticate env x req g"
    if "falsy ?tok \<or> (?tok = Some token \<and> isl (jwt_decode x token (USER_POOL_ID env)))"
  proof (cases "running_local env")
    case True
    then show ?thesis by (simp add: authenticate_def flag_elsewhere)
  next
    case local: False
    then have local': "\<not> running_local ?env'" by (simp add: flag_elsewhere)
    show ?thesis
    proof (cases "falsy ?tok")
      case True
      with local local' show ?thesis by (simp add: authenticate_no_cookie flag_elsewhere)
    next
      case False
      with that have t: "?tok = Some token" "isl (jwt_decode x token (USER_POOL_ID env))"
        by simp_all
      from False t(1) have n: "token \<noteq> []" by (simp add: falsy_def)
      from t(2) obtain e where e: "jwt_decode x token (USER_POOL_ID env) = Inl e"
        by (cases "jwt_decode x token (USER_POOL_ID env)") auto
      then have e': "jwt_decode x token (USER_POOL_ID ?env') = Inl e"
        by (simp add: flag_elsewhere)
      from authenticate_decode_error [OF local t(1) n e]
        authenticate_decode_error [OF local' _ n e'] t(1)
      show ?thesis by (simp add: flag_elsewhere)
    qed
  qed
  from verified absent expired failed same show ?thesis by blast
qed

text \<open>
  Claim C2, amended, with the flag set in a deployed instance: a user's token checked
  for \<open>admin\<close> passes; a request without the cookie and one with an expired token are
  sent to the login page; a token with a wrong signature ends the check with the
  verifier's exception; and without the flag the last request ends the same way.
\<close>

theorem disable_auth_allows_verified_witness:
  "disable_auth deployed_noauth \<and> \<not> running_local deployed_noauth
   \<and> map_of (req_cookies req_read) ''accessToken'' = Some ''eyJraWQi.eyJzdWIi.c2ln''
   \<and> falsy (map_of (req_cookies req_anonymous) ''accessToken'')
   \<and> jwt_decode (libs verify_user backend_found) ''eyJraWQi.eyJzdWIi.c2ln''
        (USER_POOL_ID deployed_noauth)
       = Inr \<lparr>cognito_groups = Some [''user''], username = Some ''alice''\<rparr>
   \<and> jwt_decode (libs verify_expired backend_found) ''eyJraWQi.eyJzdWIi.c2ln''
        (USER_POOL_ID deployed_noauth) = Inl ExpiredSignatureError
   \<and> jwt_decode (libs verify_tampered backend_found) ''eyJraWQi.eyJzdWIi.c2ln''
        (USER_POOL_ID deployed_noauth) = Inl JWTError
   \<and> authenticate deployed_noauth (libs verify_user backend_found) req_read ''admin'' = Inr None
   \<and> authenticate deployed_noauth (libs verify_user backend_found) req_anonymous ''admin''
       = Inr (Some (auth_redirect deployed_noauth))
   \<and> authenticate deployed_noauth (libs verify_expired backend_found) req_read ''admin''
       = Inr (Some (auth_redirect deployed_noauth))
   \<and> authenticate deployed_noauth (libs verify_tampered backend_found) req_read ''admin''
       \<noteq> Inr None
   \<and> authenticate (deployed_noauth\<lparr>ENABLE_AUTH := None\<rparr>) (libs verify_tampered backend_found)
        req_read ''admin''
       = authenticate deployed_noauth (libs verify_tampered backend_found) req_read ''admin''"
proof -
  let ?t = "''eyJraWQi.eyJzdWIi.c2ln''"
  have flag: "disable_auth deployed_noauth" by code_simp
  have dep: "\<not> running_local deployed_noauth" by code_simp
  have tok: "map_of (req_cookies req_read) ''accessToken'' = Some ?t" by code_simp
  have non: "?t \<noteq> []" by simp
  have none: "falsy (map_of (req_cookies req_anonymous) ''accessToken'')" by code_simp
  have ok: "jwt_decode (libs verify_user backend_found) ?t (USER_POOL_ID deployed_noauth)
       = Inr \<lparr>cognito_groups = Some [''user''], username = Some ''alice''\<rparr>"
    by code_simp
  have old: "jwt_decode (libs verify_expired backend_found) ?t (USER_POOL_ID deployed_noauth)
       = Inl ExpiredSignatureError"
    by code_simp
  have bad: "jwt_decode (libs verify_tampered backend_found) ?t (USER_POOL_ID deployed_noauth)
       = Inl JWTError"
    by code_simp
  note t = disable_auth_allows_verified [OF flag]
  from t [of req_read ?t "libs verify_user backend_found" _ "''admin''"] tok non ok
  have 1: "authenticate deployed_noauth (libs verify_user backend_found) req_read ''admin''
      = Inr None"
    by blast
  from t [of req_anonymous _ "libs verify_user backend_found" _ "''admin''"] dep none
  have 2: "authenticate deployed_noauth (libs verify_user backend_found) req_anonymous ''admin''
      = Inr (Some (auth_redirect deployed_noauth))"
    by blast
  from t [of req_read ?t "libs verify_expired backend_found" _ "''admin''"] dep tok non old
  have 3: "authenticate deployed_noauth (libs verify_expired backend_found) req_read ''admin''
      = Inr (Some (auth_redirect deployed_noauth))"
    by blast
  from t [of req_read ?t "libs verify_tampered backend_found" _ "''admin''" None] dep tok non bad
  have 4: "authenticate deployed_noauth (libs verify_tampered backend_found) req_read ''admin''
        \<noteq> Inr None
      \<and> authenticate (deployed_noauth\<lparr>ENABLE_AUTH := None\<rparr>) (libs verify_tampered backend_found)
          req_read ''admin''
        = authenticate deployed_noauth (libs verify_tampered backend_found) req_read ''admin''"
    by simp
  from flag dep tok none ok old bad 1 2 3 4 show ?thesis by blast
qed

text \<open>
  Claim C3, as stated, fails. Outside Lambda (\<^verbatim>\<open>AWS_LAMBDA_FUNCTION_NAME\<close> unset) the gate
  returns before it reads the cookie, so a request with an expired token passes.
\<close>

theorem expired_allowed_when_local:
  "map_of (req_cookies req_read) ''accessToken'' = Some ''eyJraWQi.eyJzdWIi.c2ln''
   \<and> jwt_decode (libs verify_expired backend_found) ''eyJraWQi.eyJzdWIi.c2ln''
        (USER_POOL_ID local_dev) = Inl ExpiredSignatureError
   \<and> authenticate local_dev (libs verify_expired backend_found) req_read ''admin'' = Inr None"
  by code_simp

text \<open>
  Claim C3, amended. In a deployed instance, a cookie token that the verifier rejects
  as expired yields the redirect to the login page, for every required group and
  whether or not authorization is disabled.
\<close>

theorem expired_token_redirects:
  assumes "\<not> running_local env"
    and "map_of (req_cookies req) ''accessToken'' = Some token"
    and "token \<noteq> []"
    and "jwt_decode x token (USER_POOL_ID env) = Inl ExpiredSignatureError"
  shows "authenticate env x req g = Inr (Some (auth_redirect env))"
  using assms by (simp add: authenticate_with_token)

text \<open>
  Claim C3, amended, on an expired token checked for \<open>guest\<close>.
\<close>

theorem expired_token_redirects_witness:
  "\<not> running_local deployed
   \<and> map_of (req_cookies req_read) ''accessToken'' = Some ''eyJraWQi.eyJzdWIi.c2ln''
   \<and> jwt_decode (libs verify_expired backend_found) ''eyJraWQi.eyJzdWIi.c2ln''
        (USER_POOL_ID deployed) = Inl ExpiredSignatureError
   \<and> authenticate deployed (libs verify_expired backend_found) req_read ''guest''
       = Inr (Some (auth_redirect deployed))"
proof -
  have h1: "\<not> running_local deployed" by code_simp
  have h2: "map_of (req_cookies req_read) ''accessToken'' = Some ''eyJraWQi.eyJzdWIi.c2ln''"
    by code_simp
  have h3: "''eyJraWQi.eyJzdWIi.c2ln'' \<noteq> []" by simp
  have h4: "jwt_decode (libs verify_expired backend_found) ''eyJraWQi.eyJzdWIi.c2ln''
        (USER_POOL_ID deployed) = Inl ExpiredSignatureError"
    by code_simp
  from expired_token_redirects [OF h1 h2 h3 h4] h1 h2 h4 show ?thesis by blast
qed

text \<open>
  Claim C4 does not hold of \<open>authenticate\<close>. The handler for a wrong signature catches
  \<open>JWSSignatureError\<close>, which \<^verbatim>\<open>jwt.decode\<close> never raises: for a token whose signature does
  not verify it raises \<open>JWTError\<close>. In a deployed instance such a token therefore ends
  the check with that exception, which nothing catches; the response of \<open>logout\<close> is
  not produced and no cookie is cleared.
\<close>

theorem tampered_token_raises_uncaught:
  "\<not> running_local deployed
   \<and> map_of (req_cookies req_read) ''accessToken'' = Some ''eyJraWQi.eyJzdWIi.c2ln''
   \<and> jwt_decode (libs verify_tampered backend_found) ''eyJraWQi.eyJzdWIi.c2ln''
        (USER_POOL_ID deployed) = Inl JWTError
   \<and> authenticate deployed (libs verify_tampered backend_found) req_read ''user'' = Inl JWTError
   \<and> authenticate deployed (libs verify_tampered backend_found) req_read ''user''
       \<noteq> Inr (Some logout)"
  by code_simp

section \<open>The signer\<close>

text \<open>
  Claim C5. A host that, once \<^verbatim>\<open>https://\<close> and \<^verbatim>\<open>http://\<close> are removed, has fewer than
  four parts between dots makes \<open>sigv4_request\<close> fail with \<open>ValueError\<close> (the
  unpacking into four names) before anything is signed or sent.
\<close>

theorem sigv4_request_malformed_host:
  assumes "length (split (CHR ''.'') (replace ''http://'' [] (replace ''https://'' [] h))) < 4"
  shows "sigv4_request x method (Some h) path params headers body = (Inl ValueError, [])"
proof -
  let ?parts = "split_max (CHR ''.'') 3 (replace ''http://'' [] (replace ''https://'' [] h))"
  have "length ?parts \<noteq> 4" using split_max_short [OF assms] by simp
  then show ?thesis
    unfolding sigv4_request_def by (simp add: Let_def unpack_four_fails)
qed

text \<open>
  Claim C5 on a host of three labels.
\<close>

theorem sigv4_request_malformed_host_witness:
  "split (CHR ''.'') (replace ''http://'' [] (replace ''https://'' [] ''https://api.example.com''))
     = [''api'', ''example'', ''com'']
   \<and> sigv4_request (libs verify_user backend_found) ''GET'' (Some ''https://api.example.com'')
        (Some ''/v3/clusters'') [] [] JNull = (Inl ValueError, [])"
proof -
  have s: "split (CHR ''.'')
      (replace ''http://'' [] (replace ''https://'' [] ''https://api.example.com''))
     = [''api'', ''example'', ''com'']"
    by code_simp
  then have h: "length (split (CHR ''.'')
      (replace ''http://'' [] (replace ''https://'' [] ''https://api.example.com''))) < 4"
    by simp
  from sigv4_request_malformed_host [OF h] s show ?thesis by blast
qed

section \<open>The proxy methods\<close>

text \<open>
  Claim C6, as stated, fails. Every proxy method returns \<^verbatim>\<open>resp.json()\<close> with the
  status; for an answer whose body is not JSON (here a 502 with an HTML body) that call
  raises, and the method ends with the exception instead of the backend's status and body.
\<close>

theorem forward_non_json_body_raises:
  "snd (forward GET deployed (libs verify_user backend_html) req_read) = [out_read]
   \<and> send (libs verify_user backend_html) out_read
       = Inr \<lparr>status_code = 502, json_body = Inl JSONDecodeError\<rparr>
   \<and> fst (forward GET deployed (libs verify_user backend_html) req_read) = Inl JSONDecodeError"
  by code_simp

text \<open>
  Claim C6, amended. Whenever a proxy method, of any verb, dispatched its call and the
  backend answered with a body that parses as JSON, the method returns exactly that
  parsed body with the backend's status code, whatever the code is.
\<close>

theorem forward_relays_status_and_json:
  assumes "snd (forward v env x req) = [out]"
    and "send x out = Inr r"
    and "json_body r = Inr data"
  shows "forward v env x req = (Inr (Body data (status_code r)), [out])"
proof -
  from assms(1) have "snd (forward v env x req) \<noteq> []" by simp
  from forward_dispatch [OF this] obtain out' where
    f: "forward v env x req = relay (send x out', [out'])" by blast
  then have "snd (forward v env x req) = [out']" by (simp add: relay_sent)
  with assms(1) have "out' = out" by simp
  with f assms(2,3) show ?thesis by (simp add: relay_answer)
qed

text \<open>
  Claim C6, amended, on a backend answering 404: the 404 and its body come back.
\<close>

theorem forward_relays_status_and_json_witness:
  "snd (forward GET deployed (libs verify_user backend_missing) req_read) = [out_read]
   \<and> send (libs verify_user backend_missing) out_read
       = Inr \<lparr>status_code = 404, json_body = Inr (JDict [(''message'', JStr ''not found'')])\<rparr>
   \<and> forward GET deployed (libs verify_user backend_missing) req_read
       = (Inr (Body (JDict [(''message'', JStr ''not found'')]) 404), [out_read])"
proof -
  let ?x = "libs verify_user backend_missing"
  let ?r = "\<lparr>status_code = 404, json_body = Inr (JDict [(''message'', JStr ''not found'')])\<rparr>"
  have h1: "snd (forward GET deployed ?x req_read) = [out_read]" by code_simp
  have h2: "send ?x out_read = Inr ?r" by code_simp
  have h3: "json_body ?r = Inr (JDict [(''message'', JStr ''not found'')])" by simp
  from forward_relays_status_and_json [OF h1 h2 h3] h1 h2 show ?thesis by simp
qed

text \<open>
  Claim C7, as stated, fails. The dictionary built from the query arguments holds one
  value for each key, the first. For
  \<^verbatim>\<open>?path=/v3/clusters/foo&path=/v3/images&region=us-east-1&region=eu-west-1\<close> the pair
  \<^verbatim>\<open>region=eu-west-1\<close> of the request is not forwarded.
\<close>

theorem repeated_key_loses_values:
  "(''region'', ''eu-west-1'') \<in> set (req_args req_repeated)
   \<and> get_params req_repeated = Inr [(''region'', ''us-east-1'')]
   \<and> map out_url (snd (forward GET deployed (libs verify_user backend_found) req_repeated))
       = [''https://abc123.execute-api.us-east-1.amazonaws.com/prod/v3/clusters/foo?region=us-east-1'']"
  by code_simp

text \<open>
  Claim C7, amended. When the query arguments hold \<^verbatim>\<open>path\<close>, \<open>_get_params\<close> returns
  every other key of the request once, with the first value the request gives it, and
  not \<^verbatim>\<open>path\<close>; when the request repeats no key, that is the list of its arguments with
  exactly the \<^verbatim>\<open>path\<close> pair removed and every other pair unchanged. The call that a proxy
  method dispatches has the URL made of the base URL, the first \<^verbatim>\<open>path\<close> and exactly
  these parameters.
\<close>

theorem forward_strips_path:
  assumes "map_of (req_args req) ''path'' = Some p"
  shows "get_params req = Inr (AList.delete ''path'' (AList.clearjunk (req_args req)))
    \<and> map_of (AList.delete ''path'' (AList.clearjunk (req_args req)))
        = (map_of (req_args req))(''path'' := None)
    \<and> distinct (map fst (AList.delete ''path'' (AList.clearjunk (req_args req))))
    \<and> (distinct (map fst (req_args req)) \<longrightarrow>
          AList.delete ''path'' (AList.clearjunk (req_args req))
            = filter (\<lambda>kv. fst kv \<noteq> ''path'') (req_args req))
    \<and> (\<forall>out \<in> set (snd (forward v env x req)).
          out_url out = fmt (API_BASE_URL env) @ p @ ''?''
            @ request_parameters (AList.delete ''path'' (AList.clearjunk (req_args req))))"
proof -
  let ?ps = "AList.delete ''path'' (AList.clearjunk (req_args req))"
  have g: "get_params req = Inr ?ps"
    using assms by (simp add: get_params_def AList.map_of_clearjunk)
  have m: "map_of ?ps = (map_of (req_args req))(''path'' := None)"
    by (simp add: AList.delete_conv' AList.map_of_clearjunk)
  have d: "distinct (map fst ?ps)"
    by (simp add: AList.distinct_delete)
  have f: "distinct (map fst (req_args req)) \<longrightarrow>
      ?ps = filter (\<lambda>kv. fst kv \<noteq> ''path'') (req_args req)"
    by (auto simp: AList.delete_eq intro: filter_cong)
  have u: "\<forall>out \<in> set (snd (forward v env x req)).
          out_url out = fmt (API_BASE_URL env) @ p @ ''?'' @ request_parameters ?ps"
  proof (cases "snd (forward v env x req) = []")
    case True
    then show ?thesis by simp
  next
    case False
    from forward_dispatch [OF this] obtain h params out' where
      dd: "API_BASE_URL env = Some h" "get_params req = Inr params"
        "forward v env x req = relay (send x out', [out'])"
        "out_url out' = h @ fmt (map_of (req_args req) ''path'') @ ''?'' @ request_parameters params"
      by blast
    from dd(3) have "snd (forward v env x req) = [out']" by (simp add: relay_sent)
    moreover from dd(2) g have "params = ?ps" by simp
    ultimately show ?thesis using dd(1,4) assms by (simp add: fmt_def)
  qed
  from g m d f u show ?thesis by blast
qed

text \<open>
  Claim C7, amended, on \<^verbatim>\<open>path=/v3/clusters/foo&region=us-east-1\<close>, which repeats no key:
  only \<^verbatim>\<open>region=us-east-1\<close> is forwarded.
\<close>

theorem forward_strips_path_witness:
  "map_of (req_args req_read) ''path'' = Some ''/v3/clusters/foo''
   \<and> req_args req_read = [(''path'', ''/v3/clusters/foo''), (''region'', ''us-east-1'')]
   \<and> distinct (map fst (req_args req_read))
   \<and> get_params req_read = Inr [(''region'', ''us-east-1'')]
   \<and> filter (\<lambda>kv. fst kv \<noteq> ''path'') (req_args req_read) = [(''region'', ''us-east-1'')]
   \<and> snd (forward GET deployed (libs verify_user backend_found) req_read) = [out_read]
   \<and> out_url out_read
       = ''https://abc123.execute-api.us-east-1.amazonaws.com/prod/v3/clusters/foo?region=us-east-1''"
proof -
  let ?x = "libs verify_user backend_found"
  have h: "map_of (req_args req_read) ''path'' = Some ''/v3/clusters/foo''" by code_simp
  have a: "req_args req_read = [(''path'', ''/v3/clusters/foo''), (''region'', ''us-east-1'')]"
    by code_simp
  have k: "distinct (map fst (req_args req_read))" unfolding a by simp
  have e: "AList.delete ''path'' (AList.clearjunk (req_args req_read))
      = [(''region'', ''us-east-1'')]"
    by code_simp
  have s: "snd (forward GET deployed ?x req_read) = [out_read]" by code_simp
  have b: "fmt (API_BASE_URL deployed) @ ''/v3/clusters/foo'' @ ''?''
            @ request_parameters [(''region'', ''us-east-1'')]
      = ''https://abc123.execute-api.us-east-1.amazonaws.com/prod/v3/clusters/foo?region=us-east-1''"
    by code_simp
  note t = forward_strips_path [OF h, of GET deployed ?x]
  from t have 1: "get_params req_read = Inr [(''region'', ''us-east-1'')]"
    unfolding e by blast
  from t k have 2: "filter (\<lambda>kv. fst kv \<noteq> ''path'') (req_args req_read)
      = [(''region'', ''us-east-1'')]"
    unfolding e by simp
  from t have 3: "out_url out_read = fmt (API_BASE_URL deployed) @ ''/v3/clusters/foo'' @ ''?''
            @ request_parameters [(''region'', ''us-east-1'')]"
    unfolding e s by simp
  from h a k 1 2 s 3 b show ?thesis by simp
qed

text \<open>
  Claim C8 does not hold of \<^verbatim>\<open>delete\<close>. The method tests that \<^verbatim>\<open>Content-Type\<close> is among
  the headers and then compares the header \<^verbatim>\<open>ContentType\<close>, without the hyphen, with
  \<^verbatim>\<open>application/json\<close>. An admin's DELETE that carries \<^verbatim>\<open>Content-Type: application/json\<close>
  and a JSON body is therefore forwarded without a body.
\<close>

theorem delete_with_content_type_sends_no_body:
  "headers_get (req_headers req_delete) ''Content-Type'' = Some ''application/json''
   \<and> req_json req_delete = Inr (JDict [(''force'', JBool True)])
   \<and> authenticate deployed (libs verify_admin backend_found) req_delete ''admin'' = Inr None
   \<and> delete_body req_delete = Inr JNull
   \<and> map out_data (snd (forward DELETE deployed (libs verify_admin backend_found) req_delete))
       = [None]"
  by code_simp

text \<open>
  Claim C9, as stated, fails: the call dispatched for a read carries the timeout that
  \<open>sigv4_request\<close> passes, \<^verbatim>\<open>timeout=30\<close>.
\<close>

theorem outbound_call_has_timeout:
  "map out_timeout (snd (forward GET deployed (libs verify_user backend_found) req_read))
     = [Some 30]"
  by code_simp

text \<open>
  Claim C9, amended. Every call that \<open>sigv4_request\<close> dispatches, and so every call
  of a proxy method, is issued with a timeout of 30 seconds, and a proxy method
  dispatches at most one call.
\<close>

theorem forward_timeout_thirty:
  "(\<forall>out \<in> set (snd (sigv4_request x m host path params headers body)).
      out_timeout out = Some 30)
   \<and> (\<forall>out \<in> set (snd (forward v env x req)). out_timeout out = Some 30)
   \<and> length (snd (forward v env x req)) \<le> 1"
proof -
  have a: "\<forall>out \<in> set (snd (sigv4_request x m host path params headers body)).
      out_timeout out = Some 30"
    using sigv4_request_sent [of x m host path params headers body] by auto
  have b: "(\<forall>out \<in> set (snd (forward v env x req)). out_timeout out = Some 30)
     \<and> length (snd (forward v env x req)) \<le> 1"
  proof (cases "snd (forward v env x req) = []")
    case True
    then show ?thesis by simp
  next
    case False
    from forward_dispatch [OF this] obtain out' where
      "forward v env x req = relay (send x out', [out'])" "out_timeout out' = Some 30"
      by blast
    then show ?thesis by (simp add: relay_sent)
  qed
  from a b show ?thesis by blast
qed

text \<open>
  Claim C9, amended, on an admin's DELETE: one call, with the timeout 30.
\<close>

theorem forward_timeout_thirty_witness:
  "length (snd (forward DELETE deployed (libs verify_admin backend_found) req_delete)) = 1
   \<and> map out_timeout (snd (forward DELETE deployed (libs verify_admin backend_found) req_delete))
       = [Some 30]"
proof -
  let ?s = "snd (forward DELETE deployed (libs verify_admin backend_found) req_delete)"
  have l: "length ?s = 1" by code_simp
  then obtain out where o: "?s = [out]" by (cases ?s) auto
  from forward_timeout_thirty [where v = DELETE and env = deployed
      and x = "libs verify_admin backend_found" and req = req_delete]
  have "\<forall>out \<in> set ?s. out_timeout out = Some 30" by blast
  with o have "map out_timeout ?s = [Some 30]" by simp
  with l show ?thesis by blast
qed

text \<open>
  Claim C10. When the query arguments do not hold \<^verbatim>\<open>path\<close>, \<open>_get_params\<close> raises
  \<open>KeyError\<close>; no proxy method, of any verb, dispatches a call; and a method that
  reaches the extraction of the parameters (the checks of \<open>authenticate\<close> let the
  request through and, for DELETE, reading the body did not raise) ends with that
  \<open>KeyError\<close>, which nothing catches.
\<close>

theorem missing_path_raises_key_error:
  assumes "map_of (req_args req) ''path'' = None"
  shows "get_params req = Inl KeyError
    \<and> snd (forward v env x req) = []
    \<and> (authenticate env x req ''user'' = Inr None
        \<and> (v \<noteq> GET \<longrightarrow> authenticate env x req ''admin'' = Inr None)
        \<and> (v = DELETE \<longrightarrow> \<not> isl (delete_body req))
       \<longrightarrow> forward v env x req = (Inl KeyError, []))"
proof -
  have g: "get_params req = Inl KeyError"
    using assms by (simp add: get_params_def AList.map_of_clearjunk)
  have s: "snd (forward v env x req) = []"
    using forward_sent [of v env x req] g by auto
  have k: "authenticate env x req ''user'' = Inr None
        \<and> (v \<noteq> GET \<longrightarrow> authenticate env x req ''admin'' = Inr None)
        \<and> (v = DELETE \<longrightarrow> \<not> isl (delete_body req))
       \<longrightarrow> forward v env x req = (Inl KeyError, [])"
    using g
    by (cases v)
      (auto simp: PclusterApiHandler_get_def PclusterApiHandler_post_def PclusterApiHandler_put_def
        PclusterApiHandler_delete_def PclusterApiHandler_patch_def authenticated_def admin_only_def
        split: sum.splits)
  from g s k show ?thesis by blast
qed

text \<open>
  Claim C10 on an admin's GET, POST and DELETE without \<^verbatim>\<open>path\<close>.
\<close>

theorem missing_path_raises_key_error_witness:
  "map_of (req_args req_nopath) ''path'' = None
   \<and> get_params req_nopath = Inl KeyError
   \<and> authenticate deployed (libs verify_admin backend_found) req_nopath ''user'' = Inr None
   \<and> authenticate deployed (libs verify_admin backend_found) req_nopath ''admin'' = Inr None
   \<and> forward GET deployed (libs verify_admin backend_found) req_nopath = (Inl KeyError, [])
   \<and> forward POST deployed (libs verify_admin backend_found) req_nopath = (Inl KeyError, [])
   \<and> forward DELETE deployed (libs verify_admin backend_found) req_nopath = (Inl KeyError, [])"
proof -
  let ?x = "libs verify_admin backend_found"
  have h: "map_of (req_args req_nopath) ''path'' = None" by code_simp
  have u: "authenticate deployed ?x req_nopath ''user'' = Inr None" by code_simp
  have a: "authenticate deployed ?x req_nopath ''admin'' = Inr None" by code_simp
  have d: "\<not> isl (delete_body req_nopath)" by code_simp
  note t = missing_path_raises_key_error [OF h, of _ deployed ?x]
  from t [of GET] t [of POST] t [of DELETE] h u a d show ?thesis by simp
qed

end
